theory Spec2Isabelle
  imports Main "HOL-Library.AList"
begin

section \<open>The report parser of gene-report-reader\<close>

text \<open>
  A shallow embedding of \<^verbatim>\<open>src/gene_report_reader/parser.py\<close>. A Python \<^verbatim>\<open>str\<close> is
  modelled by \<^typ>\<open>string\<close>, a character by its code point from 0 to 255. The
  character classes and the lower-case mapping below follow CPython on this range.
  The title-case mapping does so except on three characters whose title-case form is
  not a single character of the range (U+00DF, whose form is \<^verbatim>\<open>Ss\<close>, and U+00B5 and
  U+00FF, whose forms lie beyond U+00FF); they are left unchanged. Code points beyond
  U+00FF are not represented. The properties that depend on the character classes or
  on the case of letters are stated for ASCII text (\<open>is_ascii\<close>), on which every
  definition below is exact.
\<close>

subsection \<open>Characters\<close>

definition LF :: char where
  "LF = CHR 0x0A"

definition CR :: char where
  "CR = CHR 0x0D"


text \<open>\<^verbatim>\<open>str.isspace\<close>, also the class \<^verbatim>\<open>\s\<close> of \<^verbatim>\<open>re\<close>: tab, line feed, vertical
  tab, form feed, carriage return, the four separators 0x1C to 0x1F, the space, the
  next-line control 0x85 and the no-break space 0xA0.\<close>

definition is_space :: "char \<Rightarrow> bool" where
  "is_space c = (let n = (of_char c :: nat) in
     (9 \<le> n \<and> n \<le> 13) \<or> (28 \<le> n \<and> n \<le> 32) \<or> n = 133 \<or> n = 160)"

text \<open>The letters and digits of ASCII.\<close>

definition is_ascii_upper :: "char \<Rightarrow> bool" where
  "is_ascii_upper c = (let n = (of_char c :: nat) in 65 \<le> n \<and> n \<le> 90)"

definition is_ascii_lower :: "char \<Rightarrow> bool" where
  "is_ascii_lower c = (let n = (of_char c :: nat) in 97 \<le> n \<and> n \<le> 122)"

definition is_digit :: "char \<Rightarrow> bool" where
  "is_digit c = (let n = (of_char c :: nat) in 48 \<le> n \<and> n \<le> 57)"

text \<open>The capital letters, which have a lower-case form 32 code points above them:
  \<^verbatim>\<open>A\<close> to \<^verbatim>\<open>Z\<close>, and 0xC0 to 0xDE without the multiplication sign 0xD7. The small
  letters that have a capital form 32 code points below them: \<^verbatim>\<open>a\<close> to \<^verbatim>\<open>z\<close>, and 0xE0
  to 0xFE without the division sign 0xF7.\<close>

definition is_upper :: "char \<Rightarrow> bool" where
  "is_upper c = (let n = (of_char c :: nat) in
     (65 \<le> n \<and> n \<le> 90) \<or> (192 \<le> n \<and> n \<le> 222 \<and> n \<noteq> 215))"

definition is_lower :: "char \<Rightarrow> bool" where
  "is_lower c = (let n = (of_char c :: nat) in
     (97 \<le> n \<and> n \<le> 122) \<or> (224 \<le> n \<and> n \<le> 254 \<and> n \<noteq> 247))"

text \<open>\<^verbatim>\<open>str.isalpha\<close>: the letters above and the five letters without a counterpart
  in the range, 0xAA, 0xB5, 0xBA, 0xDF and 0xFF.\<close>

definition is_alpha :: "char \<Rightarrow> bool" where
  "is_alpha c = (is_upper c \<or> is_lower c
     \<or> (of_char c :: nat) \<in> {170, 181, 186, 223, 255})"

text \<open>The characters with a numeric value: the digits, the superscripts 0xB2, 0xB3,
  0xB9 and the fractions 0xBC, 0xBD, 0xBE.\<close>

definition is_numeric :: "char \<Rightarrow> bool" where
  "is_numeric c = (is_digit c \<or> (of_char c :: nat) \<in> {178, 179, 185, 188, 189, 190})"

text \<open>A cased character is a letter; \<^verbatim>\<open>str.title\<close> starts a new word after every
  character that is not cased.\<close>

definition is_cased :: "char \<Rightarrow> bool" where
  "is_cased c = is_alpha c"

definition lower_char :: "char \<Rightarrow> char" where
  "lower_char c = (if is_upper c then char_of ((of_char c :: nat) + 32) else c)"

definition upper_char :: "char \<Rightarrow> char" where
  "upper_char c = (if is_lower c then char_of ((of_char c :: nat) - 32) else c)"

text \<open>The line boundaries of \<^verbatim>\<open>str.splitlines\<close>: line feed, vertical tab, form feed,
  carriage return, the separators 0x1C, 0x1D, 0x1E, and the next-line control 0x85.\<close>

definition is_linebreak :: "char \<Rightarrow> bool" where
  "is_linebreak c = (let n = (of_char c :: nat) in
     (10 \<le> n \<and> n \<le> 13) \<or> (28 \<le> n \<and> n \<le> 30) \<or> n = 133)"

subsection \<open>The methods of \<^verbatim>\<open>str\<close> that the parser calls\<close>

definition lower :: "string \<Rightarrow> string" where
  "lower s = map lower_char s"

definition strip :: "string \<Rightarrow> string" where
  "strip s = rev (dropWhile is_space (rev (dropWhile is_space s)))"

text \<open>\<^verbatim>\<open>str.title\<close>: a character is upper-cased when the character before it is not
  cased, and lower-cased otherwise.\<close>

fun title_from :: "bool \<Rightarrow> string \<Rightarrow> string" where
  "title_from previous_is_cased [] = []"
| "title_from previous_is_cased (c # cs) =
     (if previous_is_cased then lower_char c else upper_char c) # title_from (is_cased c) cs"

definition title :: "string \<Rightarrow> string" where
  "title s = title_from False s"

text \<open>\<^verbatim>\<open>sep.join(xs)\<close>.\<close>

fun join :: "string \<Rightarrow> string list \<Rightarrow> string" where
  "join sep [] = []"
| "join sep [x] = x"
| "join sep (x # y # ys) = x @ sep @ join sep (y # ys)"

text \<open>\<^verbatim>\<open>a in b\<close> on strings: \<open>a\<close> occurs in \<open>b\<close> as a contiguous substring.\<close>

fun starts_with :: "string \<Rightarrow> string \<Rightarrow> bool" where
  "starts_with [] s = True"
| "starts_with (a # as) [] = False"
| "starts_with (a # as) (c # cs) = (a = c \<and> starts_with as cs)"

fun str_in :: "string \<Rightarrow> string \<Rightarrow> bool" where
  "str_in a [] = (a = [])"
| "str_in a (c # cs) = (starts_with a (c # cs) \<or> str_in a cs)"

text \<open>\<^verbatim>\<open>str.splitlines\<close>: the text is cut at every line boundary, a carriage return
  followed by a line feed counts as one boundary, the boundaries are not kept, and no
  empty line is produced after a final boundary.\<close>

fun splitlines_from :: "string \<Rightarrow> string \<Rightarrow> string list" where
  "splitlines_from cur [] = (if cur = [] then [] else [cur])"
| "splitlines_from cur [c] =
     (if is_linebreak c then [cur] else [cur @ [c]])"
| "splitlines_from cur (c # d # cs) =
     (if c = CR \<and> d = LF then cur # splitlines_from [] cs
      else if is_linebreak c then cur # splitlines_from [] (d # cs)
      else splitlines_from (cur @ [c]) (d # cs))"

definition splitlines :: "string \<Rightarrow> string list" where
  "splitlines text = splitlines_from [] text"

subsection \<open>Backtracking matching\<close>

text \<open>
  The two patterns of the parser are matched by \<^verbatim>\<open>re\<close>, a backtracking matcher.
  Each construct below takes the continuation \<open>k\<close> of the pattern after it, the text
  \<open>acc\<close> consumed so far by the enclosing group and the remaining input; the result is
  that of the first alternative, in the matcher's order of trial, on which the whole
  rest of the pattern succeeds.
\<close>

type_synonym 'a cont = "string \<Rightarrow> string \<Rightarrow> 'a option"

text \<open>\<^verbatim>\<open>X*\<close> for a character class: as many characters as possible first.\<close>

fun rep_greedy :: "(char \<Rightarrow> bool) \<Rightarrow> 'a cont \<Rightarrow> 'a cont" where
  "rep_greedy P k acc [] = k acc []"
| "rep_greedy P k acc (c # cs) =
     (if P c then
        (case rep_greedy P k (acc @ [c]) cs of
           Some r \<Rightarrow> Some r
         | None \<Rightarrow> k acc (c # cs))
      else k acc (c # cs))"

text \<open>\<^verbatim>\<open>X*?\<close> for a character class: as few characters as possible first.\<close>

fun rep_lazy :: "(char \<Rightarrow> bool) \<Rightarrow> 'a cont \<Rightarrow> 'a cont" where
  "rep_lazy P k acc [] = k acc []"
| "rep_lazy P k acc (c # cs) =
     (case k acc (c # cs) of
        Some r \<Rightarrow> Some r
      | None \<Rightarrow> if P c then rep_lazy P k (acc @ [c]) cs else None)"

text \<open>One character of a class.\<close>

fun one_of :: "(char \<Rightarrow> bool) \<Rightarrow> 'a cont \<Rightarrow> 'a cont" where
  "one_of P k acc [] = None"
| "one_of P k acc (c # cs) = (if P c then k (acc @ [c]) cs else None)"

text \<open>\<^verbatim>\<open>X+\<close> and \<^verbatim>\<open>X+?\<close>: one character, then the starred class.\<close>

definition plus_greedy :: "(char \<Rightarrow> bool) \<Rightarrow> 'a cont \<Rightarrow> 'a cont" where
  "plus_greedy P k = one_of P (rep_greedy P k)"

definition plus_lazy :: "(char \<Rightarrow> bool) \<Rightarrow> 'a cont \<Rightarrow> 'a cont" where
  "plus_lazy P k = one_of P (rep_lazy P k)"

text \<open>A literal under \<^verbatim>\<open>re.IGNORECASE\<close>: the input characters equal the literal's up to
  the case of letters. (The literals of the parser are ASCII; the further characters
  that \<^verbatim>\<open>re\<close> takes for a case variant of an ASCII letter lie beyond U+00FF.)\<close>

definition lit_ci :: "string \<Rightarrow> 'a cont \<Rightarrow> 'a cont" where
  "lit_ci l k acc s =
     (if length l \<le> length s \<and> lower (take (length l) s) = lower l
      then k (acc @ take (length l) s) (drop (length l) s)
      else None)"

text \<open>\<^verbatim>\<open>A|B|...\<close>: the alternatives in their order, each with the rest of the pattern.\<close>

fun first_some :: "('b \<Rightarrow> 'a option) \<Rightarrow> 'b list \<Rightarrow> 'a option" where
  "first_some f [] = None"
| "first_some f (x # xs) = (case f x of Some r \<Rightarrow> Some r | None \<Rightarrow> first_some f xs)"

text \<open>\<^verbatim>\<open>$\<close> without \<^verbatim>\<open>re.MULTILINE\<close>: at the end of the input, or before a line feed
  that ends it.\<close>

definition at_end :: "string \<Rightarrow> bool" where
  "at_end s = (s = [] \<or> s = [LF])"

text \<open>\<^verbatim>\<open>.\<close> without \<^verbatim>\<open>re.DOTALL\<close>: any character but the line feed.\<close>

definition dot :: "char \<Rightarrow> bool" where
  "dot c = (c \<noteq> LF)"

text \<open>\<^verbatim>\<open>\w\<close>: a letter, a character with a numeric value or the underscore.\<close>

definition is_word :: "char \<Rightarrow> bool" where
  "is_word c = (is_alpha c \<or> is_numeric c \<or> c = CHR ''_'')"

subsection \<open>The patterns\<close>

text \<open>\<^verbatim>\<open>_KEY_VALUE_RE = ^(?P<key>[\w /()\-]+?)\s*[:|-]\s*(?P<value>.+)$\<close>\<close>

definition is_key_char :: "char \<Rightarrow> bool" where
  "is_key_char c = (is_word c \<or> c \<in> set '' /()-'')"

definition is_key_value_sep :: "char \<Rightarrow> bool" where
  "is_key_value_sep c = (c \<in> set '':|-'')"

definition KEY_VALUE_RE_match :: "string \<Rightarrow> (string \<times> string) option" where
  "KEY_VALUE_RE_match line =
     plus_lazy is_key_char (\<lambda>key r1.
       rep_greedy is_space (\<lambda>_ r2.
         one_of is_key_value_sep (\<lambda>_ r3.
           rep_greedy is_space (\<lambda>_ r4.
             plus_greedy dot (\<lambda>val r5.
               if at_end r5 then Some (key, val) else None) [] r4) [] r3) [] r2) [] r1) [] line"

text \<open>\<^verbatim>\<open>_VARIANT_LINE_RE\<close>, compiled with \<^verbatim>\<open>re.IGNORECASE\<close>:
  \<^verbatim>\<open>^(?P<gene>[A-Z0-9]+)[\s,:;-]+(?P<variant>c\.[^\s]+|p\.[^\s]+|exon[^\s]+|g\.[^\s]+).*?\<close>
  \<^verbatim>\<open>(?P<classification>pathogenic|likely pathogenic|variant of uncertain significance|vus|benign|likely benign)\<close>\<close>

text \<open>The class \<^verbatim>\<open>[A-Z0-9]\<close> under \<^verbatim>\<open>re.IGNORECASE\<close>: the ASCII letters of either case
  and the digits.\<close>

definition is_gene_char :: "char \<Rightarrow> bool" where
  "is_gene_char c = (is_ascii_upper c \<or> is_ascii_lower c \<or> is_digit c)"

definition is_gene_sep :: "char \<Rightarrow> bool" where
  "is_gene_sep c = (is_space c \<or> c \<in> set '',:;-'')"

definition variant_prefixes :: "string list" where
  "variant_prefixes = [''c.'', ''p.'', ''exon'', ''g.'']"

definition classification_alternatives :: "string list" where
  "classification_alternatives =
     [''pathogenic'', ''likely pathogenic'', ''variant of uncertain significance'',
      ''vus'', ''benign'', ''likely benign'']"

definition VARIANT_LINE_RE_match :: "string \<Rightarrow> (string \<times> string \<times> string) option" where
  "VARIANT_LINE_RE_match line =
     plus_greedy is_gene_char (\<lambda>gene r1.
       plus_greedy is_gene_sep (\<lambda>_ r2.
         first_some (\<lambda>prefix.
           lit_ci prefix (\<lambda>p r3.
             plus_greedy (\<lambda>c. \<not> is_space c) (\<lambda>variant r4.
               rep_lazy dot (\<lambda>_ r5.
                 first_some (\<lambda>keyword.
                   lit_ci keyword (\<lambda>classification _.
                     Some (gene, variant, classification)) [] r5)
                   classification_alternatives) [] r4) p r3) [] r2)
           variant_prefixes) [] r1) [] line"

subsection \<open>The parser\<close>

type_synonym KeyValuePairs = "(string \<times> string) list"

definition CANONICAL_FIELD_NAMES :: "(string \<times> string) list" where
  "CANONICAL_FIELD_NAMES =
     [(''patient'', ''Patient Name''),
      (''patient name'', ''Patient Name''),
      (''patient id'', ''Patient ID''),
      (''id'', ''Patient ID''),
      (''identifier'', ''Patient ID''),
      (''dob'', ''Date of Birth''),
      (''date of birth'', ''Date of Birth''),
      (''sample'', ''Sample ID''),
      (''sample id'', ''Sample ID''),
      (''sample date'', ''Sample Date''),
      (''collection date'', ''Sample Date''),
      (''report date'', ''Report Date''),
      (''gene'', ''Gene''),
      (''variant'', ''Variant''),
      (''transcript'', ''Transcript''),
      (''zygosity'', ''Zygosity''),
      (''classification'', ''Classification''),
      (''interpretation'', ''Interpretation''),
      (''recommendation'', ''Recommendations''),
      (''recommendations'', ''Recommendations''),
      (''notes'', ''Notes'')]"

definition VARIANT_KEYWORDS :: "string list" where
  "VARIANT_KEYWORDS =
     [''pathogenic'', ''likely pathogenic'', ''variant of uncertain significance'',
      ''vus'', ''benign'', ''likely benign'']"

record ParsedReport =
  key_values :: KeyValuePairs

text \<open>\<^verbatim>\<open>_normalise_key\<close>. The test \<^verbatim>\<open>if canonical\<close> is false on \<^verbatim>\<open>None\<close> and on the
  empty string.\<close>

definition normalise_key :: "string \<Rightarrow> string" where
  "normalise_key raw_key =
     (case map_of CANONICAL_FIELD_NAMES (strip (lower raw_key)) of
        Some canonical \<Rightarrow> if canonical \<noteq> [] then canonical else title (strip raw_key)
      | None \<Rightarrow> title (strip raw_key))"

text \<open>\<^verbatim>\<open>_merge_key_value_pairs\<close>. The dictionary \<^verbatim>\<open>merged\<close> keeps its keys in the order
  of their insertion: it is an association list, an assignment to a present key
  replaces its value in place, and a new key goes to the end; this is \<^const>\<open>AList.update\<close>.\<close>

definition merge_pair :: "KeyValuePairs \<Rightarrow> string \<times> string \<Rightarrow> KeyValuePairs" where
  "merge_pair merged p =
     (let key = normalise_key (fst p); val = strip (snd p) in
      if val = [] then merged
      else (case map_of merged key of
              Some existing \<Rightarrow>
                if \<not> str_in (lower val) (lower existing)
                then AList.update key (existing @ ''; '' @ val) merged
                else merged
            | None \<Rightarrow> AList.update key val merged))"

definition merge_key_value_pairs :: "KeyValuePairs \<Rightarrow> KeyValuePairs" where
  "merge_key_value_pairs pairs = foldl merge_pair [] pairs"

text \<open>\<^verbatim>\<open>_extract_key_values_from_lines\<close>: the body of the loop for one line, on the
  pairs accumulated so far, and the loop.\<close>

definition mentions_keyword :: "string \<Rightarrow> bool" where
  "mentions_keyword line = list_ex (\<lambda>keyword. str_in keyword (lower line)) VARIANT_KEYWORDS"

definition extract_line :: "KeyValuePairs \<Rightarrow> string \<Rightarrow> KeyValuePairs" where
  "extract_line pairs raw_line =
     (let line = strip raw_line in
      if line = [] then pairs
      else (case KEY_VALUE_RE_match line of
              Some (key, val) \<Rightarrow> pairs @ [(key, val)]
            | None \<Rightarrow>
               (case VARIANT_LINE_RE_match line of
                  Some (gene, variant, classification) \<Rightarrow>
                    pairs @ [(''Gene'', gene)] @ [(''Variant'', variant)]
                          @ [(''Classification'', title classification)]
                | None \<Rightarrow>
                    if mentions_keyword line
                    then pairs @ [(''Notes'', line)]
                    else pairs)))"

definition extract_key_values_from_lines :: "string list \<Rightarrow> KeyValuePairs" where
  "extract_key_values_from_lines lines = foldl extract_line [] lines"

text \<open>\<^verbatim>\<open>parse_report_text\<close>: \<open>report_pairs\<close> is the list \<^verbatim>\<open>pairs\<close> that reaches the
  merge, after the fallback to a single note.\<close>

definition report_pairs :: "string \<Rightarrow> KeyValuePairs" where
  "report_pairs text =
     (let lines = splitlines text;
          pairs = extract_key_values_from_lines lines in
      if pairs = [] then
        (let cleaned = join '' '' (map strip (filter (\<lambda>line. strip line \<noteq> []) lines)) in
         if cleaned \<noteq> [] then pairs @ [(''Notes'', cleaned)] else pairs)
      else pairs)"

definition parse_report_text :: "string \<Rightarrow> ParsedReport" where
  "parse_report_text text = \<lparr>key_values = merge_key_value_pairs (report_pairs text)\<rparr>"

subsection \<open>The Markdown table\<close>

definition format_markdown_table :: "KeyValuePairs \<Rightarrow> string" where
  "format_markdown_table pairs =
     (if pairs = [] then ''| Field | Value |'' @ [LF] @ ''| --- | --- |'' @ [LF] @ ''| _(no data)_ | |''
      else
        (let header = ''| Field | Value |'' @ [LF] @ ''| --- | --- |'';
             rows = map (\<lambda>(key, val). ''| '' @ key @ '' | '' @ val @ '' |'') pairs
         in join [LF] (header # rows)))"

definition to_markdown :: "ParsedReport \<Rightarrow> string" where
  "to_markdown self = format_markdown_table (key_values self)"

subsection \<open>Notions used to state the properties of the merge\<close>

text \<open>The elements of a list in the order of their first occurrence, each once.\<close>

fun first_seen :: "'a list \<Rightarrow> 'a list" where
  "first_seen [] = []"
| "first_seen (x # xs) = x # removeAll x (first_seen xs)"

text \<open>The values that reach the field \<open>K\<close>: those of the pairs whose key normalises to
  \<open>K\<close>, stripped, the empty ones left out, in the order of the pairs.\<close>

definition values_for :: "string \<Rightarrow> KeyValuePairs \<Rightarrow> string list" where
  "values_for K pairs =
     map (\<lambda>p. strip (snd p))
       (filter (\<lambda>p. normalise_key (fst p) = K \<and> strip (snd p) \<noteq> []) pairs)"

text \<open>A further value is appended after the separator unless its lower-case form
  occurs in the lower-case form of the value built so far.\<close>

definition combine :: "string \<Rightarrow> string \<Rightarrow> string" where
  "combine existing val =
     (if \<not> str_in (lower val) (lower existing) then existing @ ''; '' @ val else existing)"

section \<open>Extraction, line by line\<close>






lemma join_header:
  "rows \<noteq> [] \<Longrightarrow> join sep ((a @ sep @ b) # rows) = join sep (a # b # rows)"
  by (cases rows) simp_all

text \<open>Claim C10. The table of the empty list is the fixed placeholder with the cell
  \<^verbatim>\<open>_(no data)_\<close>; the table of a non-empty list is the two header lines followed by
  one row \<^verbatim>\<open>| key | value |\<close> per pair, in the order of the list, joined by line feeds;
  and \<^verbatim>\<open>ParsedReport.to_markdown\<close> is the table of the report's pairs.\<close>

theorem markdown_table_layout:
  "format_markdown_table [] =
     ''| Field | Value |'' @ [LF] @ ''| --- | --- |'' @ [LF] @ ''| _(no data)_ | |''
   \<and> (pairs \<noteq> [] \<longrightarrow>
        format_markdown_table pairs =
          join [LF] (''| Field | Value |'' # ''| --- | --- |''
                       # map (\<lambda>(key, val). ''| '' @ key @ '' | '' @ val @ '' |'') pairs))
   \<and> to_markdown report = format_markdown_table (key_values report)"
proof (intro conjI impI)
  show "format_markdown_table [] =
     ''| Field | Value |'' @ [LF] @ ''| --- | --- |'' @ [LF] @ ''| _(no data)_ | |''"
    by (simp add: format_markdown_table_def)
next
  assume ne: "pairs \<noteq> []"
  let ?rows = "map (\<lambda>(key, val). ''| '' @ key @ '' | '' @ val @ '' |'') pairs"
  from ne have "?rows \<noteq> []" by simp
  from join_header [OF this, of "[LF]" "''| Field | Value |''" "''| --- | --- |''"] ne
  show "format_markdown_table pairs = join [LF] (''| Field | Value |'' # ''| --- | --- |'' # ?rows)"
    by (simp add: format_markdown_table_def Let_def)
next
  show "to_markdown report = format_markdown_table (key_values report)"
    by (simp add: to_markdown_def)
qed

theorem markdown_table_layout_witness:
  "[(''Patient Name'', ''Jane Doe''), (''Gene'', ''BRCA1'')] \<noteq> []
   \<and> format_markdown_table [(''Patient Name'', ''Jane Doe''), (''Gene'', ''BRCA1'')] =
       ''| Field | Value |'' @ [LF] @ ''| --- | --- |'' @ [LF]
         @ ''| Patient Name | Jane Doe |'' @ [LF] @ ''| Gene | BRCA1 |''"
  using markdown_table_layout [of "[(''Patient Name'', ''Jane Doe''), (''Gene'', ''BRCA1'')]"]
  by simp




section \<open>The merge\<close>

lemma map_of_merge_pair:
  "map_of (merge_pair m p) K =
     (if normalise_key (fst p) = K \<and> strip (snd p) \<noteq> []
      then (case map_of m K of
              Some existing \<Rightarrow> Some (combine existing (strip (snd p)))
            | None \<Rightarrow> Some (strip (snd p)))
      else map_of m K)"
  by (auto simp: merge_pair_def Let_def combine_def update_conv' split: option.splits)

lemma map_of_foldl_merge_pair:
  "map_of (foldl merge_pair m pairs) K =
     (case map_of m K of
        Some existing \<Rightarrow> Some (foldl combine existing (values_for K pairs))
      | None \<Rightarrow>
          (case values_for K pairs of
             [] \<Rightarrow> None
           | v # vs \<Rightarrow> Some (foldl combine v vs)))"
proof (induction pairs arbitrary: m)
  case Nil
  show ?case by (simp add: values_for_def split: option.splits)
next
  case (Cons p pairs)
  show ?case
  proof (cases "normalise_key (fst p) = K \<and> strip (snd p) \<noteq> []")
    case True
    then have v: "values_for K (p # pairs) = strip (snd p) # values_for K pairs"
      by (simp add: values_for_def)
    show ?thesis
      using True by (simp add: Cons.IH map_of_merge_pair v split: option.splits)
  next
    case False
    then have v: "values_for K (p # pairs) = values_for K pairs"
      by (auto simp: values_for_def)
    from False have "map_of (merge_pair m p) K = map_of m K"
      unfolding map_of_merge_pair by (simp only: if_False)
    then show ?thesis unfolding foldl_Cons Cons.IH v by simp
  qed
qed

lemma map_of_merge:
  "map_of (merge_key_value_pairs pairs) K =
     (case values_for K pairs of
        [] \<Rightarrow> None
      | v # vs \<Rightarrow> Some (foldl combine v vs))"
  by (simp add: merge_key_value_pairs_def map_of_foldl_merge_pair)

lemma keys_merge_pair:
  "map fst (merge_pair m p) =
     (if strip (snd p) \<noteq> [] \<and> normalise_key (fst p) \<notin> set (map fst m)
      then map fst m @ [normalise_key (fst p)] else map fst m)"
proof (cases "map_of m (normalise_key (fst p))")
  case None
  then have "normalise_key (fst p) \<notin> fst ` set m"
    by (simp add: map_of_eq_None_iff)
  then show ?thesis
    by (simp add: merge_pair_def Let_def update_keys None)
next
  case (Some existing)
  then have "normalise_key (fst p) \<in> fst ` set m"
    by (metis domI dom_map_of_conv_image_fst)
  with Some show ?thesis
    by (simp add: merge_pair_def Let_def update_keys)
qed

lemma distinct_merge_pair:
  "distinct (map fst m) \<Longrightarrow> distinct (map fst (merge_pair m p))"
  by (simp add: keys_merge_pair)

lemma distinct_foldl_merge_pair:
  "distinct (map fst m) \<Longrightarrow> distinct (map fst (foldl merge_pair m pairs))"
  by (induction pairs arbitrary: m) (simp_all add: distinct_merge_pair)

lemma distinct_merge: "distinct (map fst (merge_key_value_pairs pairs))"
  by (simp add: merge_key_value_pairs_def distinct_foldl_merge_pair)










lemma combine_nonempty: "e \<noteq> [] \<Longrightarrow> combine e x \<noteq> []"
  by (simp add: combine_def)

lemma foldl_combine_nonempty: "e \<noteq> [] \<Longrightarrow> foldl combine e vs \<noteq> []"
  by (induction vs arbitrary: e) (simp_all add: combine_nonempty)

lemma values_for_nonempty: "v \<in> set (values_for K pairs) \<Longrightarrow> v \<noteq> []"
  by (auto simp: values_for_def)

lemma merge_values_nonempty:
  assumes "(k, v) \<in> set (merge_key_value_pairs pairs)"
  shows "v \<noteq> []"
proof -
  from assms distinct_merge [of pairs] have "map_of (merge_key_value_pairs pairs) k = Some v"
    by simp
  then obtain v0 vs where vs: "values_for k pairs = v0 # vs" and v: "v = foldl combine v0 vs"
    unfolding map_of_merge by (auto split: list.splits)
  from vs have "v0 \<in> set (values_for k pairs)" by simp
  then have "v0 \<noteq> []" by (rule values_for_nonempty)
  with v show ?thesis by (simp add: foldl_combine_nonempty)
qed

lemma merge_pair_blank: "strip (snd p) = [] \<Longrightarrow> merge_pair m p = m"
  by (simp add: merge_pair_def)

lemma foldl_merge_pair_filter:
  "foldl merge_pair m (filter (\<lambda>p. strip (snd p) \<noteq> []) pairs) = foldl merge_pair m pairs"
  by (induction pairs arbitrary: m) (simp_all add: merge_pair_blank)


lemma distinct_first_seen: "distinct (first_seen xs)"
  by (induction xs) (simp_all add: distinct_removeAll)







text \<open>Claim C8. In the report of any text the keys are pairwise distinct and no value
  is empty; the merge drops the pairs whose value is empty once stripped, so that it
  gives the same list with and without them.\<close>

theorem parsed_report_invariant:
  "distinct (map fst (key_values (parse_report_text text)))
   \<and> (\<forall>(k, v) \<in> set (key_values (parse_report_text text)). v \<noteq> [])
   \<and> merge_key_value_pairs (filter (\<lambda>p. strip (snd p) \<noteq> []) pairs)
       = merge_key_value_pairs pairs"
proof (intro conjI)
  show "distinct (map fst (key_values (parse_report_text text)))"
    by (simp add: parse_report_text_def distinct_merge)
next
  show "\<forall>(k, v) \<in> set (key_values (parse_report_text text)). v \<noteq> []"
    using merge_values_nonempty by (auto simp: parse_report_text_def)
next
  show "merge_key_value_pairs (filter (\<lambda>p. strip (snd p) \<noteq> []) pairs)
       = merge_key_value_pairs pairs"
    by (simp add: merge_key_value_pairs_def foldl_merge_pair_filter)
qed

theorem parsed_report_invariant_witness:
  "key_values (parse_report_text (''Gene: BRCA1'' @ [LF] @ ''Gene: BRCA2'' @ [LF] @ ''Zygosity - het''))
     = [(''Gene'', ''BRCA1; BRCA2''), (''Zygosity'', ''het'')]
   \<and> distinct (map fst (key_values (parse_report_text
          (''Gene: BRCA1'' @ [LF] @ ''Gene: BRCA2'' @ [LF] @ ''Zygosity - het''))))
   \<and> snd (hd (key_values (parse_report_text
          (''Gene: BRCA1'' @ [LF] @ ''Gene: BRCA2'' @ [LF] @ ''Zygosity - het'')))) \<noteq> []
   \<and> merge_key_value_pairs (filter (\<lambda>p. strip (snd p) \<noteq> []) [(''gene'', ''  ''), (''gene'', ''TP53'')])
       = [(''Gene'', ''TP53'')]"
proof -
  have a: "key_values (parse_report_text (''Gene: BRCA1'' @ [LF] @ ''Gene: BRCA2'' @ [LF] @ ''Zygosity - het''))
     = [(''Gene'', ''BRCA1; BRCA2''), (''Zygosity'', ''het'')]"
    by code_simp
  have b: "merge_key_value_pairs [(''gene'', ''  ''), (''gene'', ''TP53'')] = [(''Gene'', ''TP53'')]"
    by code_simp
  from parsed_report_invariant
         [of "''Gene: BRCA1'' @ [LF] @ ''Gene: BRCA2'' @ [LF] @ ''Zygosity - het''"
             "[(''gene'', ''  ''), (''gene'', ''TP53'')]"] a b
  show ?thesis by simp
qed

section \<open>Whitespace, the patterns and the pairs they give\<close>






































section \<open>The report of a text\<close>
















section \<open>The properties of the parser\<close>




























end
